theory Spec2Isabelle
  imports Main
begin

section \<open>Python strings and slices\<close>

text \<open>
  A Python \<open>str\<close> is modelled as a list of characters, and \<open>len\<close> as \<open>length\<close>.
  The chunking utility only slices, so it is polymorphic in the character type.

  \<open>py_index i n\<close> is what a slice bound \<open>i\<close> denotes in a sequence of length \<open>n\<close>:
  a negative bound counts from the end, and the result is clipped to \<open>[0, n]\<close>.
  \<open>py_slice xs s e\<close> is \<open>xs[s:e]\<close>.
\<close>

definition py_index :: "int \<Rightarrow> int \<Rightarrow> int" where
  "py_index i n =
     (if i < 0 then (if i + n < 0 then 0 else i + n)
      else if i > n then n else i)"

definition py_slice :: "'a list \<Rightarrow> int \<Rightarrow> int \<Rightarrow> 'a list" where
  "py_slice xs s e =
     (let n = int (length xs); a = py_index s n; b = py_index e n
      in take (nat (b - a)) (drop (nat a) xs))"

section \<open>Chunking utility (API.py, chunk\_text)\<close>

text \<open>
  The \<open>while\<close> loop of \<open>chunk_text\<close>, with the loop variables \<open>start\<close> and
  \<open>chunks\<close> as arguments. With \<open>chunk_size \<le> overlap\<close> and a non-empty text the
  loop of the source never ends; not returning is the value \<open>None\<close>.
\<close>

partial_function (option) chunk_loop ::
  "'a list \<Rightarrow> int \<Rightarrow> int \<Rightarrow> int \<Rightarrow> 'a list list \<Rightarrow> 'a list list option" where
  "chunk_loop text chunk_size overlap start chunks =
     (if start < int (length text)
      then chunk_loop text chunk_size overlap (start + (chunk_size - overlap))
             (chunks @ [py_slice text start (start + chunk_size)])
      else Some chunks)"

declare chunk_loop.simps [code]

definition chunk_text :: "'a list \<Rightarrow> int \<Rightarrow> int \<Rightarrow> 'a list list option" where
  "chunk_text text chunk_size overlap = chunk_loop text chunk_size overlap 0 []"

text \<open>The call \<open>chunk_text(text)\<close> with the defaults of the signature.\<close>

abbreviation chunk_text_default :: "'a list \<Rightarrow> 'a list list option" where
  "chunk_text_default text \<equiv> chunk_text text 1000 200"

text \<open>The window the specification describes: characters \<open>[i*800, i*800+1000)\<close> of \<open>T\<close>.\<close>

definition window :: "'a list \<Rightarrow> nat \<Rightarrow> 'a list" where
  "window T i = take 1000 (drop (i * 800) T)"

text \<open>The number of windows: the least \<open>n\<close> with \<open>n * 800 \<ge> len(T)\<close>.\<close>

definition window_count :: "nat \<Rightarrow> nat" where
  "window_count L = (L + 799) div 800"

definition windows :: "'a list \<Rightarrow> 'a list list" where
  "windows T = map (window T) [0..<window_count (length T)]"

text \<open>
  The count the specification states for a text of length \<open>L\<close>:
  \<open>ceil(max(L - overlap, 1) / (size - overlap))\<close> with size 1000 and overlap 200.
\<close>

definition spec_chunk_count :: "nat \<Rightarrow> int" where
  "spec_chunk_count L = (max (int L - 200) 1 + 799) div 800"

section \<open>Text helpers of the Python runtime\<close>

text \<open>
  Characters are code points below 256. \<open>is_space\<close> is \<open>str.isspace\<close> on that range,
  \<open>py_strip\<close> is \<open>str.strip()\<close>, \<open>py_lower\<close> is \<open>str.lower()\<close> on the ASCII letters
  (no other character of the range lowers to an ASCII letter), \<open>py_join\<close> is
  \<open>sep.join(xs)\<close> and \<open>str_nat\<close> is \<open>str(i)\<close> for the loop index of an
  \<open>enumerate\<close>.
\<close>

definition is_space :: "char \<Rightarrow> bool" where
  "is_space c =
     (c \<in> set [CHR 0x09, CHR 0x0A, CHR 0x0B, CHR 0x0C, CHR 0x0D, CHR 0x1C, CHR 0x1D,
               CHR 0x1E, CHR 0x1F, CHR 0x20, CHR 0x85, CHR 0xA0])"

definition py_strip :: "string \<Rightarrow> string" where
  "py_strip s = rev (dropWhile is_space (rev (dropWhile is_space s)))"

definition lower_char :: "char \<Rightarrow> char" where
  "lower_char c =
     (case map_of (zip ''ABCDEFGHIJKLMNOPQRSTUVWXYZ'' ''abcdefghijklmnopqrstuvwxyz'') c of
        None \<Rightarrow> c
      | Some l \<Rightarrow> l)"

definition py_lower :: "string \<Rightarrow> string" where
  "py_lower s = map lower_char s"

fun py_join :: "string \<Rightarrow> string list \<Rightarrow> string" where
  "py_join sep [] = []"
| "py_join sep [x] = x"
| "py_join sep (x # y # ys) = x @ sep @ py_join sep (y # ys)"

fun str_nat :: "nat \<Rightarrow> string" where
  "str_nat n =
     (if n < 10 then [''0123456789'' ! n]
      else str_nat (n div 10) @ [''0123456789'' ! (n mod 10)])"

declare str_nat.simps [simp del]

section \<open>Data model\<close>

text \<open>
  A raised exception carries its message, \<open>str(e)\<close>, which the endpoints put into the
  body of a 500 response.
\<close>

datatype error = Error string

text \<open>
  One record of the vector index: the id, the text window and the metadata that
  \<open>store_in_chromadb\<close> writes (\<open>filename\<close>, \<open>doc_id\<close>, \<open>chunk_index\<close>).
\<close>

record chunk =
  chunk_id :: string
  document :: string
  md_filename :: string
  md_doc_id :: string
  md_chunk_index :: nat

text \<open>
  The module-level state: the handle \<open>collection\<close> (\<open>None\<close> when ChromaDB could not be
  initialised; otherwise the stored records in the order \<open>collection.get()\<close> returns
  them) and the names of the files in \<open>UPLOAD_FOLDER\<close>.
\<close>

record state =
  collection :: "chunk list option"
  uploads :: "string set"

text \<open>
  An uploaded PDF is seen through the two external passes over it: what the text-layer
  reader gives (an exception, or \<open>page.extract_text()\<close> of every page) and what the
  rasterise-and-OCR pass gives (an exception, a missing library included, or
  \<open>image_to_string\<close> of every page).
\<close>

record pdf =
  text_layer :: "error + string list"
  ocr_layer :: "error + string list"

record upload_file =
  raw_filename :: string
  content :: pdf

text \<open>The JSON bodies of the responses, and a response with its HTTP status.\<close>

datatype body =
    ErrorBody string
  | UploadBody string string string nat nat
  | ChatBody string "string list"
  | DocumentsBody "(string \<times> string) list"
  | DeleteBody string string nat

type_synonym response = "body \<times> nat"

section \<open>allowed\_file and extract\_text\_from\_pdf\<close>

definition rsplit_last :: "string \<Rightarrow> string" where
  "rsplit_last s = rev (takeWhile (\<lambda>c. c \<noteq> CHR ''.'') (rev s))"

definition allowed_file :: "string \<Rightarrow> bool" where
  "allowed_file name =
     (CHR ''.'' \<in> set name \<and> py_lower (rsplit_last name) \<in> set [''pdf''])"

definition primary_text :: "string list \<Rightarrow> string" where
  "primary_text pages =
     foldl (\<lambda>text page_text. if page_text \<noteq> [] then text @ page_text @ ''\<newline>'' else text)
       [] pages"

definition ocr_text_of :: "string list \<Rightarrow> string" where
  "ocr_text_of pages = foldl (\<lambda>ocr_text page_text. ocr_text @ page_text @ ''\<newline>'') [] pages"

definition extract_text_from_pdf :: "pdf \<Rightarrow> error + string" where
  "extract_text_from_pdf f =
     (case text_layer f of
        Inl e \<Rightarrow> Inl e
      | Inr pages \<Rightarrow>
          (let text = primary_text pages in
           if length (py_strip text) < 50 then
             (case ocr_layer f of
                Inl ocr_error \<Rightarrow> Inr text
              | Inr ocr_pages \<Rightarrow>
                  (let ocr_text = ocr_text_of ocr_pages in
                   if length (py_strip ocr_text) > length (py_strip text)
                   then Inr ocr_text else Inr text))
           else Inr text))"

section \<open>The index: store\_in\_chromadb and query\_chromadb\<close>

definition make_chunk :: "string \<Rightarrow> string \<Rightarrow> nat \<times> string \<Rightarrow> chunk" where
  "make_chunk filename doc_id ic =
     \<lparr>chunk_id = doc_id @ ''_chunk_'' @ str_nat (fst ic), document = snd ic,
      md_filename = filename, md_doc_id = doc_id, md_chunk_index = fst ic\<rparr>"

text \<open>The loop over \<open>enumerate(chunks)\<close>: one record for each chunk.\<close>

definition new_records :: "string \<Rightarrow> string \<Rightarrow> string list \<Rightarrow> chunk list" where
  "new_records filename doc_id chunks = map (make_chunk filename doc_id) (enumerate 0 chunks)"

text \<open>
  \<open>uuid\<close> is the identifier drawn by \<open>str(uuid.uuid4())\<close>. \<open>collection.add\<close> appends
  the new records. The result is the new content of the collection with the pair the
  source returns; \<open>None\<close> is a chunking loop that does not return.
\<close>

definition store_in_chromadb ::
  "chunk list option \<Rightarrow> string \<Rightarrow> string \<Rightarrow> string \<Rightarrow>
     (error + (chunk list \<times> string \<times> nat)) option" where
  "store_in_chromadb coll uuid text filename =
     (case coll of
        None \<Rightarrow> Some (Inl (Error ''ChromaDB collection not initialized''))
      | Some records \<Rightarrow>
          (case chunk_text text 1000 200 of
             None \<Rightarrow> None
           | Some chunks \<Rightarrow>
               Some (Inr (records @ new_records filename uuid chunks, uuid, length chunks))))"

text \<open>
  The nearest-neighbour search is the vector store's: \<open>dist question document\<close> is the
  distance it assigns, and a query returns the \<open>n_results\<close> nearest records.
\<close>

definition query_chromadb ::
  "(string \<Rightarrow> string \<Rightarrow> 'd::linorder) \<Rightarrow> chunk list option \<Rightarrow> string \<Rightarrow> nat \<Rightarrow>
     error + chunk list" where
  "query_chromadb dist coll query_text n_results =
     (case coll of
        None \<Rightarrow> Inl (Error ''ChromaDB collection not initialized'')
      | Some records \<Rightarrow> Inr (take n_results (sort_key (\<lambda>c. dist query_text (document c)) records)))"

section \<open>generate\_response\<close>

definition prompt :: "string \<Rightarrow> string \<Rightarrow> string" where
  "prompt question context =
     ''You are a helpful AI assistant. Answer the user's question based on the provided context.''
     @ ''\<newline>'' @
     ''If the answer cannot be found in the context, say so politely.''
     @ ''\<newline>\<newline>'' @ ''Context:'' @ ''\<newline>'' @ context @ ''\<newline>\<newline>'' @
     ''Question: '' @ question @ ''\<newline>\<newline>'' @ ''Answer:''"

text \<open>
  \<open>model\<close> is \<open>None\<close> when no API key is configured; otherwise it is the generation
  collaborator: on a prompt it raises or returns \<open>response.text\<close>.
\<close>

definition generate_response ::
  "(string \<Rightarrow> error + string) option \<Rightarrow> string \<Rightarrow> string \<Rightarrow> string" where
  "generate_response model question context =
     (case model of
        None \<Rightarrow>
          ''Error: Gemini API is not configured. Please set GEMINI_API_KEY environment variable.''
      | Some generate_content \<Rightarrow>
          (case generate_content (prompt question context) of
             Inr text \<Rightarrow> text
           | Inl (Error e) \<Rightarrow> ''Error generating response: '' @ e))"

section \<open>Endpoints\<close>

subsection \<open>POST /api/upload\<close>

definition duplicate_message :: string where
  "duplicate_message =
     ''File already uploaded. Please delete the existing file first or upload a different file.''"

text \<open>
  \<open>secure_filename\<close> is the sanitiser of the web framework, \<open>req\<close> is
  \<open>request.files.get('file')\<close>. The result is the response with the state after the
  request.
\<close>

definition upload_document ::
  "(string \<Rightarrow> string) \<Rightarrow> string \<Rightarrow> state \<Rightarrow> upload_file option \<Rightarrow>
     (response \<times> state) option" where
  "upload_document secure_filename uuid st req =
     (case req of
        None \<Rightarrow> Some ((ErrorBody ''No file provided'', 400), st)
      | Some file \<Rightarrow>
          if raw_filename file = [] then Some ((ErrorBody ''No file selected'', 400), st)
          else if \<not> allowed_file (raw_filename file)
          then Some ((ErrorBody ''Only PDF files are allowed'', 400), st)
          else
            (let filename = secure_filename (raw_filename file) in
             if (case collection st of
                   None \<Rightarrow> False
                 | Some all_docs \<Rightarrow> filename \<in> set (map md_filename all_docs))
             then Some ((ErrorBody duplicate_message, 400), st)
             else
               (let saved = st\<lparr>uploads := insert filename (uploads st)\<rparr> in
                case extract_text_from_pdf (content file) of
                  Inl (Error e) \<Rightarrow> Some ((ErrorBody e, 500), saved)
                | Inr text \<Rightarrow>
                    if py_strip text = []
                    then Some ((ErrorBody ''No text could be extracted from PDF'', 400),
                               saved\<lparr>uploads := uploads saved - {filename}\<rparr>)
                    else
                      (case store_in_chromadb (collection saved) uuid text filename of
                         None \<Rightarrow> None
                       | Some (Inl (Error e)) \<Rightarrow> Some ((ErrorBody e, 500), saved)
                       | Some (Inr (records, doc_id, num_chunks)) \<Rightarrow>
                           Some ((UploadBody ''Document uploaded and processed successfully''
                                    filename doc_id num_chunks (length text), 200),
                                 saved\<lparr>collection := Some records\<rparr>)))))"

subsection \<open>POST /api/chat\<close>

definition no_documents_answer :: string where
  "no_documents_answer =
     ''I don't have any documents to reference. Please upload a PDF document first.''"

fun collect_sources :: "chunk list \<Rightarrow> string list \<Rightarrow> string list" where
  "collect_sources [] sources = sources"
| "collect_sources (metadata # rest) sources =
     collect_sources rest
       (if md_filename metadata \<notin> set sources then sources @ [md_filename metadata]
        else sources)"

definition context_of :: "chunk list \<Rightarrow> string" where
  "context_of results =
     (if map document results \<noteq> [] then py_join ''\<newline>\<newline>'' (map document results) else [])"

text \<open>
  \<open>data\<close> is \<open>request.get_json()\<close>: \<open>None\<close>, or the fields of the JSON object.
\<close>

definition chat ::
  "(string \<Rightarrow> string \<Rightarrow> 'd::linorder) \<Rightarrow> (string \<Rightarrow> error + string) option \<Rightarrow> state \<Rightarrow>
     (string \<times> string) list option \<Rightarrow> response" where
  "chat dist model st data =
     (case data of
        None \<Rightarrow> (ErrorBody ''No question provided'', 400)
      | Some json \<Rightarrow>
          (case map_of json ''question'' of
             None \<Rightarrow> (ErrorBody ''No question provided'', 400)
           | Some question \<Rightarrow>
               (case query_chromadb dist (collection st) question 5 of
                  Inl (Error e) \<Rightarrow> (ErrorBody e, 500)
                | Inr results \<Rightarrow>
                    (let context = context_of results in
                     if context = [] then (ChatBody no_documents_answer [], 200)
                     else
                       (let answer = generate_response model question context;
                            sources = collect_sources results []
                        in (ChatBody answer sources, 200))))))"

subsection \<open>GET /api/documents\<close>

fun unique_docs :: "chunk list \<Rightarrow> (string \<times> string) list \<Rightarrow> (string \<times> string) list" where
  "unique_docs [] acc = acc"
| "unique_docs (metadata # rest) acc =
     unique_docs rest
       (if md_filename metadata \<noteq> [] \<and> md_doc_id metadata \<noteq> []
           \<and> md_doc_id metadata \<notin> set (map fst acc)
        then acc @ [(md_doc_id metadata, md_filename metadata)] else acc)"

definition list_documents :: "state \<Rightarrow> response" where
  "list_documents st =
     (case collection st of
        None \<Rightarrow> (DocumentsBody [], 200)
      | Some all_docs \<Rightarrow> (DocumentsBody (unique_docs all_docs []), 200))"

subsection \<open>DELETE /api/documents/<doc\_id>\<close>

text \<open>
  The first loop of the handler: the filename of the first record with the given
  \<open>doc_id\<close>, \<open>None\<close> when there is none.
\<close>

fun find_filename :: "chunk list \<Rightarrow> string \<Rightarrow> string option" where
  "find_filename [] doc_id = None"
| "find_filename (metadata # rest) doc_id =
     (if md_doc_id metadata = doc_id then Some (md_filename metadata)
      else find_filename rest doc_id)"

definition delete_document :: "state \<Rightarrow> string \<Rightarrow> response \<times> state" where
  "delete_document st doc_id =
     (case collection st of
        None \<Rightarrow> ((ErrorBody ''ChromaDB not initialized'', 500), st)
      | Some all_docs \<Rightarrow>
          (case find_filename all_docs doc_id of
             None \<Rightarrow> ((ErrorBody ''Document not found'', 404), st)
           | Some filename \<Rightarrow>
               if filename = [] then ((ErrorBody ''Document not found'', 404), st)
               else
                 (let ids_to_delete =
                        map chunk_id (filter (\<lambda>metadata. md_doc_id metadata = doc_id) all_docs);
                      remaining = filter (\<lambda>c. chunk_id c \<notin> set ids_to_delete) all_docs
                  in ((DeleteBody ''Document deleted successfully'' filename
                         (length ids_to_delete), 200),
                      st\<lparr>collection := Some remaining,
                         uploads := uploads st - {filename}\<rparr>))))"

section \<open>Helper lemmas on slices and the loop\<close>

lemma py_slice_nonneg:
  assumes "0 \<le> s" "0 \<le> k"
  shows "py_slice xs s (s + k) = take (nat k) (drop (nat s) xs)"
proof (cases "s \<le> int (length xs)")
  case True
  note s_le = True
  show ?thesis
  proof (cases "s + k \<le> int (length xs)")
    case True
    with assms s_le show ?thesis
      by (simp add: py_slice_def py_index_def Let_def)
  next
    case False
    with assms s_le have "py_slice xs s (s + k) = take (nat (int (length xs) - s)) (drop (nat s) xs)"
      by (simp add: py_slice_def py_index_def Let_def)
    also have "\<dots> = drop (nat s) xs"
      using assms s_le by simp
    also have "\<dots> = take (nat k) (drop (nat s) xs)"
      using assms False by simp
    finally show ?thesis .
  qed
next
  case False
  with assms show ?thesis
    by (simp add: py_slice_def py_index_def Let_def)
qed

lemma window_count_less: "(k < window_count L) = (k * 800 < L)"
  unfolding window_count_def by arith

lemma chunk_loop_default:
  "k \<le> window_count (length T) \<Longrightarrow>
   chunk_loop T 1000 200 (int (k * 800)) acc =
     Some (acc @ map (window T) [k..<window_count (length T)])"
proof (induction "window_count (length T) - k" arbitrary: k acc)
  case 0
  then have keq: "k = window_count (length T)" by simp
  then have "\<not> k * 800 < length T"
    using window_count_less [of k "length T"] by simp
  then have "\<not> int (k * 800) < int (length T)" by simp
  then show ?case
    by (subst chunk_loop.simps) (simp add: keq)
next
  case (Suc d)
  then have klt: "k < window_count (length T)" by simp
  then have "k * 800 < length T"
    using window_count_less [of k "length T"] by simp
  then have cond: "int (k * 800) < int (length T)" by simp
  have sl: "py_slice T (int (k * 800)) (int (k * 800) + 1000) = window T k"
  proof -
    have "nat (int (k * 800)) = k * 800" by (rule nat_int)
    then show ?thesis
      using py_slice_nonneg [of "int (k * 800)" 1000 T] by (simp add: window_def)
  qed
  have nxt: "int (k * 800) + (1000 - 200) = int (Suc k * 800)" by simp
  have d: "d = window_count (length T) - Suc k" using Suc.hyps(2) by simp
  have le: "Suc k \<le> window_count (length T)" using klt by simp
  have "chunk_loop T 1000 200 (int (k * 800)) acc =
        chunk_loop T 1000 200 (int (Suc k * 800)) (acc @ [window T k])"
    by (subst chunk_loop.simps) (simp only: cond if_True sl nxt)
  also have "\<dots> = Some ((acc @ [window T k]) @ map (window T) [Suc k..<window_count (length T)])"
    using Suc.hyps(1) [OF d le] .
  also have "\<dots> = Some (acc @ map (window T) [k..<window_count (length T)])"
    using klt by (simp add: upt_conv_Cons)
  finally show ?case .
qed

lemma chunk_text_default_eq:
  "chunk_text_default T = Some (map (window T) [0..<window_count (length T)])"
  using chunk_loop_default [of 0 T "[]"] by (simp add: chunk_text_def)

text \<open>
  The loop does not return when the stride is not positive and the text is not empty:
  the reason why \<open>chunk_text\<close> has an optional result.
\<close>

lemma chunk_loop_Some_stride:
  assumes "chunk_loop T chunk_size overlap start chunks = Some y"
  shows "\<not> (chunk_size \<le> overlap \<and> start < int (length T))"
proof (rule chunk_loop.raw_induct
    [where P = "\<lambda>T chunk_size overlap start chunks y.
                  \<not> (chunk_size \<le> overlap \<and> start < int (length T))", OF _ assms])
  fix loop :: "'a list \<Rightarrow> int \<Rightarrow> int \<Rightarrow> int \<Rightarrow> 'a list list \<Rightarrow> 'a list list option"
    and T chunk_size overlap start chunks y
  assume ih: "\<And>T chunk_size overlap start chunks y.
        loop T chunk_size overlap start chunks = Some y \<Longrightarrow>
        \<not> (chunk_size \<le> overlap \<and> start < int (length T))"
    and step: "(if start < int (length T)
      then loop T chunk_size overlap (start + (chunk_size - overlap))
            (chunks @ [py_slice T start (start + chunk_size)])
      else Some chunks) = Some y"
  show "\<not> (chunk_size \<le> overlap \<and> start < int (length T))"
  proof
    assume a: "chunk_size \<le> overlap \<and> start < int (length T)"
    then have "loop T chunk_size overlap (start + (chunk_size - overlap))
             (chunks @ [py_slice T start (start + chunk_size)]) = Some y"
      using step by simp
    then have "\<not> (chunk_size \<le> overlap \<and> start + (chunk_size - overlap) < int (length T))"
      by (rule ih)
    then show False using a by simp
  qed
qed

lemma chunk_text_diverges:
  "chunk_size \<le> overlap \<Longrightarrow> T \<noteq> [] \<Longrightarrow> chunk_text T chunk_size overlap = None"
proof (rule ccontr)
  assume a: "chunk_size \<le> overlap" "T \<noteq> []" "chunk_text T chunk_size overlap \<noteq> None"
  then obtain y where "chunk_loop T chunk_size overlap 0 [] = Some y"
    by (auto simp: chunk_text_def)
  then have "\<not> (chunk_size \<le> overlap \<and> 0 < int (length T))"
    by (rule chunk_loop_Some_stride)
  then show False using a by simp
qed

lemma window_count_le: "window_count L \<le> L"
  unfolding window_count_def by arith

lemma filter_window_starts:
  "filter (\<lambda>i. i * 800 < L) [0..<L] = [0..<window_count L]"
proof -
  have split: "[0..<L] = [0..<window_count L] @ [window_count L..<L]"
    using window_count_le [of L] by (metis le_add_diff_inverse upt_add_eq_append zero_le)
  have a: "filter (\<lambda>i. i * 800 < L) [0..<window_count L] = [0..<window_count L]"
    by (rule filter_True) (simp add: window_count_less)
  have b: "filter (\<lambda>i. i * 800 < L) [window_count L..<L] = []"
    by (rule filter_False) (simp add: window_count_less [symmetric])
  show ?thesis
    by (subst split) (simp only: filter_append a b append_Nil2)
qed

lemma length_window: "length (window T i) = min 1000 (length T - i * 800)"
  by (simp add: window_def)

lemma chunks_801:
  "chunk_text (replicate 801 CHR ''a'') 1000 200 = Some [replicate 801 CHR ''a'', ''a'']"
  by (simp add: chunk_text_default_eq window_count_def window_def upt_conv_Cons)

lemma chunks_2401:
  "chunk_text (replicate 2401 CHR ''a'') 1000 200 =
     Some [replicate 1000 CHR ''a'', replicate 1000 CHR ''a'', replicate 801 CHR ''a'', ''a'']"
  by (simp add: chunk_text_default_eq window_count_def window_def upt_conv_Cons)

section \<open>Properties of the chunking utility\<close>

text \<open>
  C1. With size 1000 and overlap 200, \<open>chunk_text\<close> returns, in ascending order of
  \<open>i\<close>, one window for every \<open>i\<close> with \<open>i * 800 < len(T)\<close>, and window \<open>i\<close> is the
  characters of \<open>T\<close> at positions \<open>[i * 800, i * 800 + 1000)\<close>: the text from position
  \<open>i * 800\<close> on, cut after 1000 characters and nowhere else, so the last window is
  shorter when the text ends before.
\<close>

theorem chunk_text_windows:
  "chunk_text T 1000 200 =
     Some (map (\<lambda>i. take 1000 (drop (i * 800) T))
             (filter (\<lambda>i. i * 800 < length T) [0..<length T]))"
proof -
  have "window T = (\<lambda>i. take 1000 (drop (i * 800) T))"
    by (rule ext) (simp add: window_def)
  then show ?thesis
    by (simp only: chunk_text_default_eq filter_window_starts)
qed

text \<open>
  C2, as stated, fails: a text of 801 characters gives two windows (starts 0 and 800),
  and the stated formula \<open>ceil(max(801 - 200, 1) / 800)\<close> gives one.
\<close>

theorem chunk_count_formula_counterexample:
  "map_option (\<lambda>ws. int (length ws)) (chunk_text (replicate 801 CHR ''a'') 1000 200) = Some 2
   \<and> spec_chunk_count (length (replicate 801 CHR ''a'')) = 1
   \<and> map_option (\<lambda>ws. int (length ws)) (chunk_text (replicate 801 CHR ''a'') 1000 200)
       \<noteq> Some (spec_chunk_count (length (replicate 801 CHR ''a'')))"
  by (simp add: chunks_801 spec_chunk_count_def)

text \<open>
  C2, amended. For every text of length \<open>L\<close> the number of windows is \<open>ceil(L / 800)\<close>:
  the overlap is not subtracted, since the loop runs while the window start is inside
  the text.
\<close>

theorem chunk_text_count:
  "map_option length (chunk_text T 1000 200) = Some ((length T + 799) div 800)"
  by (simp add: chunk_text_default_eq window_count_def)

text \<open>
  C3, as stated, fails: a text of 801 characters gives two windows, and the first one,
  which is not the last, has 801 characters.
\<close>

theorem window_length_counterexample:
  "chunk_text (replicate 801 CHR ''a'') 1000 200 = Some [replicate 801 CHR ''a'', ''a'']
   \<and> length ([replicate 801 CHR ''a'', ''a''] ! 0) \<noteq> 1000"
  by (simp add: chunks_801)

text \<open>
  C3, amended. Every window except the last two has length exactly 1000. The
  second-to-last window \<open>i\<close> has length \<open>min(1000, len(T) - i * 800)\<close>, which is more
  than 800.
\<close>

theorem window_lengths:
  assumes "chunk_text T 1000 200 = Some ws"
  shows "(\<forall>i. i + 2 < length ws \<longrightarrow> length (ws ! i) = 1000)
       \<and> (\<forall>i. i + 2 = length ws \<longrightarrow>
            length (ws ! i) = min 1000 (length T - i * 800) \<and> 800 < length (ws ! i))"
proof -
  have ws: "ws = map (window T) [0..<window_count (length T)]"
    using assms by (simp add: chunk_text_default_eq)
  have len: "length ws = window_count (length T)" by (simp add: ws)
  have nth: "length (ws ! i) = min 1000 (length T - i * 800)" if "i < length ws" for i
    using that by (simp add: ws length_window)
  have far: "length (ws ! i) = 1000" if "i + 2 < length ws" for i
  proof -
    have "(i + 2) * 800 < length T"
      using that window_count_less [of "i + 2" "length T"] by (simp add: len)
    then show ?thesis using nth [of i] that by simp
  qed
  have near: "length (ws ! i) = min 1000 (length T - i * 800) \<and> 800 < length (ws ! i)"
    if "i + 2 = length ws" for i
  proof -
    have "i + 1 < window_count (length T)" using that len by simp
    then have "(i + 1) * 800 < length T"
      using window_count_less [of "i + 1" "length T"] by simp
    then show ?thesis using nth [of i] that by simp
  qed
  show ?thesis using far near by blast
qed

theorem window_lengths_witness:
  "chunk_text (replicate 2401 CHR ''a'') 1000 200 =
     Some [replicate 1000 CHR ''a'', replicate 1000 CHR ''a'', replicate 801 CHR ''a'', ''a'']
   \<and> length ([replicate 1000 CHR ''a'', replicate 1000 CHR ''a'',
               replicate 801 CHR ''a'', ''a''] ! 1) = 1000
   \<and> 800 < length ([replicate 1000 CHR ''a'', replicate 1000 CHR ''a'',
                     replicate 801 CHR ''a'', ''a''] ! 2)"
  using window_lengths [OF chunks_2401] chunks_2401 by simp

section \<open>Properties of text extraction\<close>

text \<open>
  C9. An exception of the text-layer pass is the result of the extraction. When that
  pass returns and its trimmed text has fewer than 50 characters, the outcome of the
  OCR pass decides: its text (the per-page outputs, each followed by a newline)
  replaces the primary text exactly when its trimmed length is strictly greater than
  the trimmed length of the primary text, and an exception of the OCR pass leaves the
  primary text as the result. With 50 trimmed characters or more the result is the
  primary text whatever the OCR pass would give.
\<close>

theorem extract_text_policy:
  "(text_layer f = Inl e \<longrightarrow> extract_text_from_pdf f = Inl e)
   \<and> (text_layer f = Inr pages \<and> length (py_strip (primary_text pages)) < 50
        \<and> ocr_layer f = Inr ocr_pages \<longrightarrow>
      extract_text_from_pdf f =
        Inr (if length (py_strip (ocr_text_of ocr_pages)) > length (py_strip (primary_text pages))
             then ocr_text_of ocr_pages else primary_text pages))
   \<and> (text_layer f = Inr pages \<and> length (py_strip (primary_text pages)) < 50
        \<and> ocr_layer f = Inl ocr_error \<longrightarrow>
      extract_text_from_pdf f = Inr (primary_text pages))
   \<and> (text_layer f = Inr pages \<and> \<not> length (py_strip (primary_text pages)) < 50 \<longrightarrow>
      extract_text_from_pdf f = Inr (primary_text pages))"
  by (simp add: extract_text_from_pdf_def Let_def)

theorem extract_text_policy_witness:
  "extract_text_from_pdf \<lparr>text_layer = Inl (Error ''broken xref''), ocr_layer = Inr [''page'']\<rparr>
     = Inl (Error ''broken xref'')
   \<and> extract_text_from_pdf \<lparr>text_layer = Inr ['' ab ''], ocr_layer = Inr [''scanned text'']\<rparr>
     = Inr (''scanned text'' @ ''\<newline>'')
   \<and> extract_text_from_pdf \<lparr>text_layer = Inr [''abcd''], ocr_layer = Inr ['' abcd '']\<rparr>
     = Inr (''abcd'' @ ''\<newline>'')
   \<and> extract_text_from_pdf
        \<lparr>text_layer = Inr [''abcd''], ocr_layer = Inl (Error ''tesseract is not installed'')\<rparr>
     = Inr (''abcd'' @ ''\<newline>'')
   \<and> extract_text_from_pdf
        \<lparr>text_layer = Inr [replicate 50 CHR ''a''], ocr_layer = Inr [replicate 60 CHR ''b'']\<rparr>
     = Inr (replicate 50 CHR ''a'' @ ''\<newline>'')"
  using
    extract_text_policy [of "\<lparr>text_layer = Inl (Error ''broken xref''), ocr_layer = Inr [''page'']\<rparr>"
      "Error ''broken xref''"]
    extract_text_policy [of "\<lparr>text_layer = Inr ['' ab ''], ocr_layer = Inr [''scanned text'']\<rparr>"
      _ "['' ab '']" "[''scanned text'']"]
    extract_text_policy [of "\<lparr>text_layer = Inr [''abcd''], ocr_layer = Inr ['' abcd '']\<rparr>"
      _ "[''abcd'']" "['' abcd '']"]
    extract_text_policy [of
      "\<lparr>text_layer = Inr [''abcd''], ocr_layer = Inl (Error ''tesseract is not installed'')\<rparr>"
      _ "[''abcd'']" _ "Error ''tesseract is not installed''"]
    extract_text_policy [of
      "\<lparr>text_layer = Inr [replicate 50 CHR ''a''], ocr_layer = Inr [replicate 60 CHR ''b'']\<rparr>"
      _ "[replicate 50 CHR ''a'']"]
  by (simp add: primary_text_def ocr_text_of_def py_strip_def is_space_def)

section \<open>Properties of the chat endpoint\<close>

text \<open>
  C5. When the index holds no chunk and the body has a \<open>question\<close>, the chat endpoint
  answers 200 with the fixed no-documents answer and an empty list of sources.
\<close>

theorem chat_empty_index:
  assumes "collection st = Some []" and "map_of json ''question'' = Some question"
  shows "chat dist model st (Some json) =
           (ChatBody ''I don't have any documents to reference. Please upload a PDF document first.'' [],
            200)"
  using assms
  by (simp add: chat_def query_chromadb_def context_of_def no_documents_answer_def)

theorem chat_empty_index_witness:
  "chat (\<lambda>q d. 0::nat) None \<lparr>collection = Some [], uploads = {}\<rparr>
     (Some [(''question'', ''What is in the report?'')]) =
   (ChatBody ''I don't have any documents to reference. Please upload a PDF document first.'' [],
    200)"
  using chat_empty_index [of "\<lparr>collection = Some [], uploads = {}\<rparr>"
      "[(''question'', ''What is in the report?'')]" "''What is in the report?''"
      "\<lambda>q d. 0::nat" None]
  by simp

text \<open>
  C8. When the retrieved context is not empty and the generation collaborator raises
  on the prompt, the chat endpoint still answers 200: the answer is the text
  \<open>Error generating response: \<close> followed by the message of the exception, with the
  sources of the retrieved chunks.
\<close>

theorem chat_generation_failure:
  assumes "map_of json ''question'' = Some question"
    and "query_chromadb dist (collection st) question 5 = Inr results"
    and "context_of results \<noteq> []"
    and "generate_content (prompt question (context_of results)) = Inl (Error e)"
  shows "chat dist (Some generate_content) st (Some json) =
           (ChatBody (''Error generating response: '' @ e) (collect_sources results []), 200)"
  using assms by (simp add: chat_def generate_response_def Let_def)

theorem chat_generation_failure_witness:
  "chat (\<lambda>q d. 0::nat) (Some (\<lambda>p. Inl (Error ''429 quota exceeded'')))
     \<lparr>collection = Some [\<lparr>chunk_id = ''d1_chunk_0'', document = ''Annual report'',
                           md_filename = ''a.pdf'', md_doc_id = ''d1'', md_chunk_index = 0\<rparr>],
      uploads = {''a.pdf''}\<rparr>
     (Some [(''question'', ''What is in the report?'')]) =
   (ChatBody ''Error generating response: 429 quota exceeded'' [''a.pdf''], 200)"
proof -
  let ?c = "\<lparr>chunk_id = ''d1_chunk_0'', document = ''Annual report'',
              md_filename = ''a.pdf'', md_doc_id = ''d1'', md_chunk_index = 0\<rparr>"
  let ?st = "\<lparr>collection = Some [?c], uploads = {''a.pdf''}\<rparr>"
  let ?json = "[(''question'', ''What is in the report?'')]"
  let ?dist = "\<lambda>q d. 0::nat"
  let ?gen = "\<lambda>p::string. Inl (Error ''429 quota exceeded'') :: error + string"
  have q: "map_of ?json ''question'' = Some ''What is in the report?''" by simp
  have r: "query_chromadb ?dist (collection ?st) ''What is in the report?'' 5 = Inr [?c]"
    by (simp add: query_chromadb_def)
  have c: "context_of [?c] \<noteq> []" by (simp add: context_of_def)
  have g: "?gen (prompt ''What is in the report?'' (context_of [?c])) = Inl (Error ''429 quota exceeded'')"
    by simp
  show ?thesis
    using chat_generation_failure [of ?json "''What is in the report?''" ?dist ?st "[?c]" ?gen
        "''429 quota exceeded''", OF q r c g]
    by simp
qed

section \<open>Properties of upload, list and delete\<close>

lemma store_in_chromadb_eq:
  "store_in_chromadb (Some records) uuid text filename =
     Some (Inr (records @ new_records filename uuid (windows text), uuid,
                window_count (length text)))"
  by (simp add: store_in_chromadb_def chunk_text_default_eq windows_def)

lemma upload_document_accepted:
  assumes "raw_filename file \<noteq> []" and "allowed_file (raw_filename file)"
    and "collection st = Some all_docs"
    and "secure_filename (raw_filename file) \<notin> set (map md_filename all_docs)"
    and "extract_text_from_pdf (content file) = Inr text"
    and "py_strip text \<noteq> []"
  shows "upload_document secure_filename uuid st (Some file) =
     Some ((UploadBody ''Document uploaded and processed successfully''
              (secure_filename (raw_filename file)) uuid (window_count (length text))
              (length text), 200),
           st\<lparr>uploads := insert (secure_filename (raw_filename file)) (uploads st),
              collection :=
                Some (all_docs @
                      new_records (secure_filename (raw_filename file)) uuid (windows text))\<rparr>)"
  using assms by (simp add: upload_document_def Let_def store_in_chromadb_eq)

lemma upload_document_200:
  assumes "upload_document secure_filename uuid st req = Some ((b, 200), st')"
  shows "\<exists>file all_docs text.
           req = Some file \<and> raw_filename file \<noteq> [] \<and> allowed_file (raw_filename file)
           \<and> collection st = Some all_docs
           \<and> secure_filename (raw_filename file) \<notin> set (map md_filename all_docs)
           \<and> extract_text_from_pdf (content file) = Inr text \<and> py_strip text \<noteq> []"
proof (cases req)
  case None
  with assms show ?thesis by (simp add: upload_document_def)
next
  case (Some upl)
  show ?thesis
  proof (cases "collection st")
    case None
    with assms Some show ?thesis
      by (auto simp: upload_document_def Let_def store_in_chromadb_def
               split: if_splits sum.splits error.splits)
  next
    case (Some all_docs)
    with assms \<open>req = Some upl\<close> show ?thesis
      by (auto simp: upload_document_def Let_def store_in_chromadb_eq
               split: if_splits sum.splits error.splits)
  qed
qed

lemma upload_document_duplicate:
  assumes "collection st = Some all_docs"
    and "secure_filename (raw_filename file) \<in> set (map md_filename all_docs)"
  shows "upload_document secure_filename uuid st (Some file) =
           Some ((ErrorBody (if raw_filename file = [] then ''No file selected''
                             else if \<not> allowed_file (raw_filename file)
                             then ''Only PDF files are allowed''
                             else duplicate_message), 400), st)"
  using assms by (simp add: upload_document_def Let_def)

lemma py_strip_Nil: "py_strip [] = []"
  by (simp add: py_strip_def)

lemma windows_nonempty: "text \<noteq> [] \<Longrightarrow> windows text \<noteq> []"
proof -
  assume "text \<noteq> []"
  then have "0 < length text" by simp
  then have "0 < window_count (length text)"
    using window_count_less [of 0 "length text"] by simp
  then show ?thesis by (simp add: windows_def)
qed

lemma md_filename_new_records:
  "map md_filename (new_records filename doc_id chunks) = replicate (length chunks) filename"
  by (simp add: new_records_def make_chunk_def map_replicate_const comp_def)

lemma filename_in_new_records:
  "chunks \<noteq> [] \<Longrightarrow> filename \<in> set (map md_filename (new_records filename doc_id chunks))"
  by (simp add: md_filename_new_records)


text \<open>
  C6. When a chunk in the index carries a filename and the name of the uploaded file
  sanitises to it (as the stored name itself does when the sanitiser leaves its own
  results unchanged), the upload is answered 400 and the state, the stored chunks
  included, is unchanged; the error is the duplicate message once the name passes the
  checks that come first. In particular, after an upload answered 200, any further
  upload under the same raw filename is answered 400 with the duplicate message and
  changes nothing.
\<close>

theorem upload_duplicate_rejected:
  "(collection st = Some all_docs \<and> filename \<in> set (map md_filename all_docs)
      \<and> secure_filename (raw_filename file) = filename \<longrightarrow>
      (\<exists>e. upload_document secure_filename uuid st (Some file) = Some ((ErrorBody e, 400), st)
           \<and> (raw_filename file \<noteq> [] \<and> allowed_file (raw_filename file) \<longrightarrow>
                e = duplicate_message)))
   \<and> (upload_document secure_filename uuid st (Some file) = Some ((b, 200), st')
      \<and> raw_filename again = raw_filename file \<longrightarrow>
      upload_document secure_filename uuid' st' (Some again) =
        Some ((ErrorBody duplicate_message, 400), st'))"
proof (intro conjI impI)
  assume "collection st = Some all_docs \<and> filename \<in> set (map md_filename all_docs)
      \<and> secure_filename (raw_filename file) = filename"
  then have "upload_document secure_filename uuid st (Some file) =
           Some ((ErrorBody (if raw_filename file = [] then ''No file selected''
                             else if \<not> allowed_file (raw_filename file)
                             then ''Only PDF files are allowed''
                             else duplicate_message), 400), st)"
    using upload_document_duplicate [of st all_docs secure_filename "file" uuid] by simp
  then show "\<exists>e. upload_document secure_filename uuid st (Some file) = Some ((ErrorBody e, 400), st)
           \<and> (raw_filename file \<noteq> [] \<and> allowed_file (raw_filename file) \<longrightarrow>
                e = duplicate_message)"
    by simp
next
  assume a: "upload_document secure_filename uuid st (Some file) = Some ((b, 200), st')
      \<and> raw_filename again = raw_filename file"
  then obtain docs0 body_text where ok:
      "raw_filename file \<noteq> []" "allowed_file (raw_filename file)"
      "collection st = Some docs0"
      "secure_filename (raw_filename file) \<notin> set (map md_filename docs0)"
      "extract_text_from_pdf (content file) = Inr body_text" "py_strip body_text \<noteq> []"
    using upload_document_200 [of secure_filename uuid st "Some file" b st'] by auto
  let ?fn = "secure_filename (raw_filename file)"
  have st': "st' = st\<lparr>uploads := insert ?fn (uploads st),
                      collection := Some (docs0 @ new_records ?fn uuid (windows body_text))\<rparr>"
    using a upload_document_accepted [where secure_filename = secure_filename and uuid = uuid, OF ok]
    by simp
  have "body_text \<noteq> []" using ok(6) py_strip_Nil by auto
  then have "?fn \<in> set (map md_filename (new_records ?fn uuid (windows body_text)))"
    by (intro filename_in_new_records windows_nonempty)
  then have dup: "secure_filename (raw_filename again) \<in>
                    set (map md_filename (docs0 @ new_records ?fn uuid (windows body_text)))"
    using a by simp
  have coll: "collection st' = Some (docs0 @ new_records ?fn uuid (windows body_text))"
    by (simp add: st')
  show "upload_document secure_filename uuid' st' (Some again) =
        Some ((ErrorBody duplicate_message, 400), st')"
    using upload_document_duplicate [where secure_filename = secure_filename and uuid = uuid',
        OF coll dup] a ok(1,2)
    by simp
qed

lemma allowed_file_a_pdf: "allowed_file ''a.pdf''"
  by (simp add: allowed_file_def rsplit_last_def py_lower_def lower_char_def)

lemma upload_hello:
  "upload_document (\<lambda>n. n) ''d1'' \<lparr>collection = Some [], uploads = {}\<rparr>
     (Some \<lparr>raw_filename = ''a.pdf'',
            content = \<lparr>text_layer = Inr [''Hello world''],
                       ocr_layer = Inl (Error ''OCR libraries not available'')\<rparr>\<rparr>) =
   Some ((UploadBody ''Document uploaded and processed successfully'' ''a.pdf'' ''d1'' 1 12, 200),
         \<lparr>collection =
            Some [\<lparr>chunk_id = ''d1_chunk_0'', document = ''Hello world\<newline>'',
                   md_filename = ''a.pdf'', md_doc_id = ''d1'', md_chunk_index = 0\<rparr>],
          uploads = {''a.pdf''}\<rparr>)"
proof -
  let ?file = "\<lparr>raw_filename = ''a.pdf'',
            content = \<lparr>text_layer = Inr [''Hello world''],
                       ocr_layer = Inl (Error ''OCR libraries not available'')\<rparr>\<rparr>"
  let ?st = "\<lparr>collection = Some [], uploads = {}\<rparr>"
  have e: "extract_text_from_pdf (content ?file) = Inr (''Hello world\<newline>'')"
    by (simp add: extract_text_from_pdf_def primary_text_def py_strip_def is_space_def)
  have s: "py_strip (''Hello world\<newline>'') \<noteq> []"
    by (simp add: py_strip_def is_space_def)
  have w: "windows (''Hello world\<newline>'') = [''Hello world\<newline>'']"
    by (simp add: windows_def window_count_def window_def)
  have n: "str_nat 0 = ''0''" by (simp add: str_nat.simps)
  show ?thesis
    using upload_document_accepted [of ?file ?st "[]" "\<lambda>n. n" "''Hello world\<newline>''" "''d1''"]
      e s allowed_file_a_pdf
    by (simp add: w n new_records_def make_chunk_def window_count_def)
qed

theorem upload_duplicate_rejected_witness:
  "upload_document (\<lambda>n. n) ''d1'' \<lparr>collection = Some [], uploads = {}\<rparr>
     (Some \<lparr>raw_filename = ''a.pdf'',
            content = \<lparr>text_layer = Inr [''Hello world''],
                       ocr_layer = Inl (Error ''OCR libraries not available'')\<rparr>\<rparr>) =
   Some ((UploadBody ''Document uploaded and processed successfully'' ''a.pdf'' ''d1'' 1 12, 200),
         \<lparr>collection =
            Some [\<lparr>chunk_id = ''d1_chunk_0'', document = ''Hello world\<newline>'',
                   md_filename = ''a.pdf'', md_doc_id = ''d1'', md_chunk_index = 0\<rparr>],
          uploads = {''a.pdf''}\<rparr>)
   \<and> upload_document (\<lambda>n. n) ''d2''
         \<lparr>collection =
            Some [\<lparr>chunk_id = ''d1_chunk_0'', document = ''Hello world\<newline>'',
                   md_filename = ''a.pdf'', md_doc_id = ''d1'', md_chunk_index = 0\<rparr>],
          uploads = {''a.pdf''}\<rparr>
         (Some \<lparr>raw_filename = ''a.pdf'',
                content = \<lparr>text_layer = Inr [''Another text''], ocr_layer = Inr []\<rparr>\<rparr>) =
       Some ((ErrorBody duplicate_message, 400),
         \<lparr>collection =
            Some [\<lparr>chunk_id = ''d1_chunk_0'', document = ''Hello world\<newline>'',
                   md_filename = ''a.pdf'', md_doc_id = ''d1'', md_chunk_index = 0\<rparr>],
          uploads = {''a.pdf''}\<rparr>)"
proof -
  let ?c = "\<lparr>chunk_id = ''d1_chunk_0'', document = ''Hello world\<newline>'',
             md_filename = ''a.pdf'', md_doc_id = ''d1'', md_chunk_index = 0\<rparr>"
  let ?st1 = "\<lparr>collection = Some [?c], uploads = {''a.pdf''}\<rparr>"
  let ?again = "\<lparr>raw_filename = ''a.pdf'',
                content = \<lparr>text_layer = Inr [''Another text''], ocr_layer = Inr []\<rparr>\<rparr>"
  have stored: "collection ?st1 = Some [?c] \<and> ''a.pdf'' \<in> set (map md_filename [?c])
                 \<and> (\<lambda>n. n) (raw_filename ?again) = ''a.pdf''"
    by simp
  have ok: "raw_filename ?again \<noteq> [] \<and> allowed_file (raw_filename ?again)"
    using allowed_file_a_pdf by simp
  from upload_duplicate_rejected [of ?st1 "[?c]" "''a.pdf''" "\<lambda>n. n" ?again "''d2''"]
  have "upload_document (\<lambda>n. n) ''d2'' ?st1 (Some ?again) =
          Some ((ErrorBody duplicate_message, 400), ?st1)"
    using stored ok by auto
  then show ?thesis using upload_hello by simp
qed

lemma find_filename_None:
  "(find_filename xs d = None) = (d \<notin> set (map md_doc_id xs))"
  by (induction xs) auto

lemma filter_by_ids:
  assumes "distinct (map chunk_id xs)"
  shows "filter (\<lambda>c. chunk_id c \<notin> set (map chunk_id (filter P xs))) xs = filter (\<lambda>c. \<not> P c) xs"
proof (rule filter_cong [OF refl])
  fix c assume c: "c \<in> set xs"
  have inj: "inj_on chunk_id (set xs)" using assms by (simp add: distinct_map)
  show "(chunk_id c \<notin> set (map chunk_id (filter P xs))) = (\<not> P c)"
  proof
    assume "chunk_id c \<notin> set (map chunk_id (filter P xs))"
    then show "\<not> P c" using c by auto
  next
    assume n: "\<not> P c"
    show "chunk_id c \<notin> set (map chunk_id (filter P xs))"
    proof
      assume "chunk_id c \<in> set (map chunk_id (filter P xs))"
      then obtain c' where c': "c' \<in> set xs" "P c'" "chunk_id c' = chunk_id c" by auto
      then have "c' = c" using inj c by (auto dest: inj_onD)
      with c' n show False by simp
    qed
  qed
qed

lemma unique_docs_ids:
  "set (map fst (unique_docs xs acc)) \<subseteq> set (map fst acc) \<union> set (map md_doc_id xs)"
proof (induction xs arbitrary: acc)
  case Nil
  show ?case by simp
next
  case (Cons x xs)
  show ?case using Cons.IH [of "acc @ [(md_doc_id x, md_filename x)]"] Cons.IH [of acc]
    by (auto split: if_splits)
qed

lemma delete_document_found:
  assumes "collection st = Some all_docs" and "find_filename all_docs doc_id = Some filename"
    and "filename \<noteq> []" and "distinct (map chunk_id all_docs)"
  shows "delete_document st doc_id =
           ((DeleteBody ''Document deleted successfully'' filename
               (length (filter (\<lambda>c. md_doc_id c = doc_id) all_docs)), 200),
            st\<lparr>collection := Some (filter (\<lambda>c. md_doc_id c \<noteq> doc_id) all_docs),
               uploads := uploads st - {filename}\<rparr>)"
  using assms(1,2,3) filter_by_ids [OF assms(4), of "\<lambda>c. md_doc_id c = doc_id"]
  by (simp add: delete_document_def Let_def)

lemma find_filename_in:
  "find_filename xs d = Some f \<Longrightarrow> f \<in> set (map md_filename xs)"
  by (induction xs) (auto split: if_splits)

text \<open>
  C7. On an initialised index, deleting a \<open>doc_id\<close> that no stored chunk carries is
  answered 404 and leaves the state unchanged. Otherwise, with the ids of the store
  distinct and the stored filenames non-empty, it is answered 200 with the filename of
  the document and \<open>chunks_deleted\<close> the number of chunks with that \<open>doc_id\<close>; exactly
  those chunks are removed, the listing of documents no longer has that \<open>doc_id\<close>, and
  the stored file is gone.
\<close>

theorem delete_document_spec:
  "(collection st = Some all_docs \<and> doc_id \<notin> set (map md_doc_id all_docs) \<longrightarrow>
      delete_document st doc_id = ((ErrorBody ''Document not found'', 404), st))
   \<and> (collection st = Some all_docs \<and> doc_id \<in> set (map md_doc_id all_docs)
       \<and> distinct (map chunk_id all_docs) \<and> [] \<notin> set (map md_filename all_docs) \<longrightarrow>
      (\<exists>filename.
         find_filename all_docs doc_id = Some filename
         \<and> delete_document st doc_id =
             ((DeleteBody ''Document deleted successfully'' filename
                 (length (filter (\<lambda>c. md_doc_id c = doc_id) all_docs)), 200),
              st\<lparr>collection := Some (filter (\<lambda>c. md_doc_id c \<noteq> doc_id) all_docs),
                 uploads := uploads st - {filename}\<rparr>)
         \<and> (\<exists>docs. list_documents (snd (delete_document st doc_id)) = (DocumentsBody docs, 200)
                \<and> doc_id \<notin> set (map fst docs))
         \<and> filename \<notin> uploads (snd (delete_document st doc_id))))"
proof (intro conjI impI)
  assume "collection st = Some all_docs \<and> doc_id \<notin> set (map md_doc_id all_docs)"
  then show "delete_document st doc_id = ((ErrorBody ''Document not found'', 404), st)"
    using find_filename_None [of all_docs doc_id] by (simp add: delete_document_def)
next
  assume a: "collection st = Some all_docs \<and> doc_id \<in> set (map md_doc_id all_docs)
       \<and> distinct (map chunk_id all_docs) \<and> [] \<notin> set (map md_filename all_docs)"
  then obtain filename where f: "find_filename all_docs doc_id = Some filename"
    using find_filename_None [of all_docs doc_id] by auto
  have ne: "filename \<noteq> []"
  proof
    assume "filename = []"
    then have "[] \<in> set (map md_filename all_docs)" using find_filename_in [OF f] by simp
    then show False using a by simp
  qed
  have coll: "collection st = Some all_docs" and dist: "distinct (map chunk_id all_docs)"
    using a by simp_all
  note del = delete_document_found [OF coll f ne dist]
  let ?rest = "filter (\<lambda>c. md_doc_id c \<noteq> doc_id) all_docs"
  have "doc_id \<notin> set (map fst (unique_docs ?rest []))"
    using unique_docs_ids [of ?rest "[]"] by auto
  then have lst: "\<exists>docs. list_documents (snd (delete_document st doc_id)) = (DocumentsBody docs, 200)
                \<and> doc_id \<notin> set (map fst docs)"
    by (simp add: del list_documents_def)
  have gone: "filename \<notin> uploads (snd (delete_document st doc_id))"
    by (simp add: del)
  show "\<exists>filename.
         find_filename all_docs doc_id = Some filename
         \<and> delete_document st doc_id =
             ((DeleteBody ''Document deleted successfully'' filename
                 (length (filter (\<lambda>c. md_doc_id c = doc_id) all_docs)), 200),
              st\<lparr>collection := Some (filter (\<lambda>c. md_doc_id c \<noteq> doc_id) all_docs),
                 uploads := uploads st - {filename}\<rparr>)
         \<and> (\<exists>docs. list_documents (snd (delete_document st doc_id)) = (DocumentsBody docs, 200)
                \<and> doc_id \<notin> set (map fst docs))
         \<and> filename \<notin> uploads (snd (delete_document st doc_id))"
    using f del lst gone by blast
qed


theorem delete_document_spec_witness:
  "delete_document
     \<lparr>collection =
        Some [\<lparr>chunk_id = ''d1_chunk_0'', document = ''first'', md_filename = ''a.pdf'',
                md_doc_id = ''d1'', md_chunk_index = 0\<rparr>,
              \<lparr>chunk_id = ''d2_chunk_0'', document = ''other'', md_filename = ''b.pdf'',
                md_doc_id = ''d2'', md_chunk_index = 0\<rparr>,
              \<lparr>chunk_id = ''d1_chunk_1'', document = ''second'', md_filename = ''a.pdf'',
                md_doc_id = ''d1'', md_chunk_index = 1\<rparr>],
      uploads = {''a.pdf'', ''b.pdf''}\<rparr> ''d9'' =
     ((ErrorBody ''Document not found'', 404),
      \<lparr>collection =
        Some [\<lparr>chunk_id = ''d1_chunk_0'', document = ''first'', md_filename = ''a.pdf'',
                md_doc_id = ''d1'', md_chunk_index = 0\<rparr>,
              \<lparr>chunk_id = ''d2_chunk_0'', document = ''other'', md_filename = ''b.pdf'',
                md_doc_id = ''d2'', md_chunk_index = 0\<rparr>,
              \<lparr>chunk_id = ''d1_chunk_1'', document = ''second'', md_filename = ''a.pdf'',
                md_doc_id = ''d1'', md_chunk_index = 1\<rparr>],
      uploads = {''a.pdf'', ''b.pdf''}\<rparr>)
   \<and> delete_document
     \<lparr>collection =
        Some [\<lparr>chunk_id = ''d1_chunk_0'', document = ''first'', md_filename = ''a.pdf'',
                md_doc_id = ''d1'', md_chunk_index = 0\<rparr>,
              \<lparr>chunk_id = ''d2_chunk_0'', document = ''other'', md_filename = ''b.pdf'',
                md_doc_id = ''d2'', md_chunk_index = 0\<rparr>,
              \<lparr>chunk_id = ''d1_chunk_1'', document = ''second'', md_filename = ''a.pdf'',
                md_doc_id = ''d1'', md_chunk_index = 1\<rparr>],
      uploads = {''a.pdf'', ''b.pdf''}\<rparr> ''d1'' =
     ((DeleteBody ''Document deleted successfully'' ''a.pdf'' 2, 200),
      \<lparr>collection =
        Some [\<lparr>chunk_id = ''d2_chunk_0'', document = ''other'', md_filename = ''b.pdf'',
                md_doc_id = ''d2'', md_chunk_index = 0\<rparr>],
       uploads = {''b.pdf''}\<rparr>)"
proof -
  let ?a0 = "\<lparr>chunk_id = ''d1_chunk_0'', document = ''first'', md_filename = ''a.pdf'',
                md_doc_id = ''d1'', md_chunk_index = 0\<rparr>"
  let ?b0 = "\<lparr>chunk_id = ''d2_chunk_0'', document = ''other'', md_filename = ''b.pdf'',
                md_doc_id = ''d2'', md_chunk_index = 0\<rparr>"
  let ?a1 = "\<lparr>chunk_id = ''d1_chunk_1'', document = ''second'', md_filename = ''a.pdf'',
                md_doc_id = ''d1'', md_chunk_index = 1\<rparr>"
  let ?st = "\<lparr>collection = Some [?a0, ?b0, ?a1], uploads = {''a.pdf'', ''b.pdf''}\<rparr>"
  have missing: "collection ?st = Some [?a0, ?b0, ?a1]
                  \<and> ''d9'' \<notin> set (map md_doc_id [?a0, ?b0, ?a1])"
    by simp
  have present: "collection ?st = Some [?a0, ?b0, ?a1]
                  \<and> ''d1'' \<in> set (map md_doc_id [?a0, ?b0, ?a1])
                  \<and> distinct (map chunk_id [?a0, ?b0, ?a1])
                  \<and> [] \<notin> set (map md_filename [?a0, ?b0, ?a1])"
    by simp
  have nf: "delete_document ?st ''d9'' = ((ErrorBody ''Document not found'', 404), ?st)"
    using delete_document_spec [of ?st "[?a0, ?b0, ?a1]" "''d9''"] missing by blast
  have "\<exists>filename. find_filename [?a0, ?b0, ?a1] ''d1'' = Some filename
         \<and> delete_document ?st ''d1'' =
             ((DeleteBody ''Document deleted successfully'' filename
                 (length (filter (\<lambda>c. md_doc_id c = ''d1'') [?a0, ?b0, ?a1])), 200),
              ?st\<lparr>collection := Some (filter (\<lambda>c. md_doc_id c \<noteq> ''d1'') [?a0, ?b0, ?a1]),
                 uploads := uploads ?st - {filename}\<rparr>)"
    using delete_document_spec [of ?st "[?a0, ?b0, ?a1]" "''d1''"] present by blast
  then have del: "delete_document ?st ''d1'' =
     ((DeleteBody ''Document deleted successfully'' ''a.pdf'' 2, 200),
      \<lparr>collection = Some [?b0], uploads = {''b.pdf''}\<rparr>)"
    by auto
  show ?thesis using nf del by simp
qed

section \<open>The upload example and the sanitised filename\<close>

lemma allowed_file_x_pdf: "allowed_file ''x.pdf''"
  by (simp add: allowed_file_def rsplit_last_def py_lower_def lower_char_def)

lemma windows_2401:
  "length text = 2401 \<Longrightarrow>
   windows text = map (\<lambda>start. take 1000 (drop start text)) [0, 800, 1600, 2400]"
  by (simp add: windows_def window_count_def window_def upt_conv_Cons)

lemma primary_text_single: "page \<noteq> [] \<Longrightarrow> primary_text [page] = page @ ''\<newline>''"
  by (simp add: primary_text_def)

lemma strip_a_2400: "py_strip (replicate 2400 CHR ''a'' @ ''\<newline>'') = replicate 2400 CHR ''a''"
  by (simp add: py_strip_def is_space_def)

lemma upload_x_pdf_2400:
  "upload_document (\<lambda>n. n) ''d1'' \<lparr>collection = Some [], uploads = {}\<rparr>
     (Some \<lparr>raw_filename = ''x.pdf'',
            content = \<lparr>text_layer = Inr [replicate 2400 CHR ''a''],
                       ocr_layer = Inl (Error ''OCR libraries not available'')\<rparr>\<rparr>) =
   Some ((UploadBody ''Document uploaded and processed successfully'' ''x.pdf'' ''d1'' 4 2401, 200),
         \<lparr>collection = Some (new_records ''x.pdf'' ''d1''
                               (windows (replicate 2400 CHR ''a'' @ ''\<newline>''))),
          uploads = {''x.pdf''}\<rparr>)"
proof -
  let ?file = "\<lparr>raw_filename = ''x.pdf'',
            content = \<lparr>text_layer = Inr [replicate 2400 CHR ''a''],
                       ocr_layer = Inl (Error ''OCR libraries not available'')\<rparr>\<rparr>"
  let ?st = "\<lparr>collection = Some [], uploads = {}\<rparr>"
  let ?text = "replicate 2400 CHR ''a'' @ ''\<newline>''"
  have p: "primary_text [replicate 2400 CHR ''a''] = ?text"
    by (rule primary_text_single) simp
  have e: "extract_text_from_pdf (content ?file) = Inr ?text"
    by (simp add: extract_text_from_pdf_def p strip_a_2400)
  have s: "py_strip ?text \<noteq> []" by (simp only: strip_a_2400) simp
  show ?thesis
    using upload_document_accepted [of ?file ?st "[]" "\<lambda>n. n" ?text "''d1''"]
      e s allowed_file_x_pdf
    by (simp add: window_count_def)
qed

text \<open>
  C4, as stated, fails: for a page of 2400 characters the response reports 4 chunks and
  a text length of 2401, not 3 and 2400.
\<close>

theorem upload_2400_counterexample:
  "map_option fst
     (upload_document (\<lambda>n. n) ''d1'' \<lparr>collection = Some [], uploads = {}\<rparr>
        (Some \<lparr>raw_filename = ''x.pdf'',
               content = \<lparr>text_layer = Inr [replicate 2400 CHR ''a''],
                          ocr_layer = Inl (Error ''OCR libraries not available'')\<rparr>\<rparr>)) =
     Some (UploadBody ''Document uploaded and processed successfully'' ''x.pdf'' ''d1'' 4 2401, 200)
   \<and> map_option fst
     (upload_document (\<lambda>n. n) ''d1'' \<lparr>collection = Some [], uploads = {}\<rparr>
        (Some \<lparr>raw_filename = ''x.pdf'',
               content = \<lparr>text_layer = Inr [replicate 2400 CHR ''a''],
                          ocr_layer = Inl (Error ''OCR libraries not available'')\<rparr>\<rparr>)) \<noteq>
     Some (UploadBody ''Document uploaded and processed successfully'' ''x.pdf'' ''d1'' 3 2400, 200)"
  by (simp add: upload_x_pdf_2400)

text \<open>
  C4, amended. Uploading a single-page PDF named \<open>x.pdf\<close> whose text-layer page text
  has 2400 characters, at least 50 of them left after trimming, to an index that has
  no chunk under the sanitised name is answered 200 with \<open>chunks = 4\<close> and
  \<open>text_length = 2401\<close>: the extracted text is the page text followed by a newline,
  and the stored windows start at characters 0, 800, 1600 and 2400.
\<close>

theorem upload_single_page_2400:
  assumes "raw_filename file = ''x.pdf''"
    and "text_layer (content file) = Inr [page]"
    and "length page = 2400"
    and "50 \<le> length (py_strip (page @ ''\<newline>''))"
    and "collection st = Some all_docs"
    and "secure_filename ''x.pdf'' \<notin> set (map md_filename all_docs)"
  shows "upload_document secure_filename uuid st (Some file) =
     Some ((UploadBody ''Document uploaded and processed successfully''
              (secure_filename ''x.pdf'') uuid 4 2401, 200),
           st\<lparr>uploads := insert (secure_filename ''x.pdf'') (uploads st),
              collection :=
                Some (all_docs @
                      new_records (secure_filename ''x.pdf'') uuid
                        (map (\<lambda>start. take 1000 (drop start (page @ ''\<newline>'')))
                           [0, 800, 1600, 2400]))\<rparr>)"
proof -
  let ?text = "page @ ''\<newline>''"
  have ne: "page \<noteq> []" using assms(3) by auto
  have len: "length ?text = 2401" using assms(3) by simp
  have ex: "extract_text_from_pdf (content file) = Inr ?text"
    using assms(2,4) by (simp add: extract_text_from_pdf_def primary_text_single [OF ne])
  have st: "py_strip ?text \<noteq> []" using assms(4) by auto
  have r: "raw_filename file \<noteq> []" and a: "allowed_file (raw_filename file)"
    using assms(1) allowed_file_x_pdf by simp_all
  have f: "secure_filename (raw_filename file) \<notin> set (map md_filename all_docs)"
    using assms(1,6) by simp
  have "window_count (length ?text) = 4" by (simp only: len) (simp add: window_count_def)
  then show ?thesis
    using upload_document_accepted [of "file" st all_docs secure_filename ?text uuid,
        OF r a assms(5) f ex st]
    by (simp only: windows_2401 [OF len] len assms(1))
qed

theorem upload_single_page_2400_witness:
  "upload_document (\<lambda>n. n) ''d1'' \<lparr>collection = Some [], uploads = {}\<rparr>
     (Some \<lparr>raw_filename = ''x.pdf'',
            content = \<lparr>text_layer = Inr [replicate 2400 CHR ''a''],
                       ocr_layer = Inl (Error ''OCR libraries not available'')\<rparr>\<rparr>) =
   Some ((UploadBody ''Document uploaded and processed successfully'' ''x.pdf'' ''d1'' 4 2401, 200),
         \<lparr>collection =
            Some [\<lparr>chunk_id = ''d1_chunk_0'', document = replicate 1000 CHR ''a'',
                   md_filename = ''x.pdf'', md_doc_id = ''d1'', md_chunk_index = 0\<rparr>,
                  \<lparr>chunk_id = ''d1_chunk_1'', document = replicate 1000 CHR ''a'',
                   md_filename = ''x.pdf'', md_doc_id = ''d1'', md_chunk_index = 1\<rparr>,
                  \<lparr>chunk_id = ''d1_chunk_2'', document = replicate 800 CHR ''a'' @ ''\<newline>'',
                   md_filename = ''x.pdf'', md_doc_id = ''d1'', md_chunk_index = 2\<rparr>,
                  \<lparr>chunk_id = ''d1_chunk_3'', document = ''\<newline>'',
                   md_filename = ''x.pdf'', md_doc_id = ''d1'', md_chunk_index = 3\<rparr>],
          uploads = {''x.pdf''}\<rparr>)"
proof -
  let ?file = "\<lparr>raw_filename = ''x.pdf'',
            content = \<lparr>text_layer = Inr [replicate 2400 CHR ''a''],
                       ocr_layer = Inl (Error ''OCR libraries not available'')\<rparr>\<rparr>"
  let ?st = "\<lparr>collection = Some [], uploads = {}\<rparr>"
  have 1: "raw_filename ?file = ''x.pdf''" by simp
  have 2: "text_layer (content ?file) = Inr [replicate 2400 CHR ''a'']" by simp
  have 3: "length (replicate 2400 CHR ''a'') = 2400" by simp
  have 4: "50 \<le> length (py_strip (replicate 2400 CHR ''a'' @ ''\<newline>''))"
    by (simp only: strip_a_2400) simp
  have 5: "collection ?st = Some []" by simp
  have 6: "(\<lambda>n. n) ''x.pdf'' \<notin> set (map md_filename [])" by simp
  have n: "str_nat 0 = ''0''" "str_nat (Suc 0) = ''1''" "str_nat (Suc (Suc 0)) = ''2''"
      "str_nat (Suc (Suc (Suc 0))) = ''3''"
    by (simp_all add: str_nat.simps)
  show ?thesis
    using upload_single_page_2400 [of ?file "replicate 2400 CHR ''a''" ?st "[]" "\<lambda>n. n" "''d1''",
        OF 1 2 3 4 5 6]
    by (simp add: new_records_def make_chunk_def n)
qed


lemma unique_docs_append:
  "unique_docs (xs @ ys) acc = unique_docs ys (unique_docs xs acc)"
  by (induction xs arbitrary: acc) simp_all

lemma unique_docs_mono: "set acc \<subseteq> set (unique_docs xs acc)"
proof (induction xs arbitrary: acc)
  case Nil
  show ?case by simp
next
  case (Cons x xs)
  show ?case using Cons.IH [of "acc @ [(md_doc_id x, md_filename x)]"] Cons.IH [of acc]
    by (auto split: if_splits)
qed

lemma unique_docs_first:
  assumes "md_doc_id x \<noteq> []" and "md_filename x \<noteq> []"
    and "md_doc_id x \<notin> set (map fst acc)"
  shows "(md_doc_id x, md_filename x) \<in> set (unique_docs (x # xs) acc)"
proof -
  have "unique_docs (x # xs) acc = unique_docs xs (acc @ [(md_doc_id x, md_filename x)])"
    using assms by simp
  then show ?thesis
    using unique_docs_mono [of "acc @ [(md_doc_id x, md_filename x)]" xs] by auto
qed

lemma find_filename_append:
  "find_filename (xs @ ys) d =
     (case find_filename xs d of None \<Rightarrow> find_filename ys d | Some f \<Rightarrow> Some f)"
  by (induction xs) simp_all

lemma new_records_Cons:
  "new_records filename doc_id (w # ws) =
     make_chunk filename doc_id (0, w) # map (make_chunk filename doc_id) (enumerate 1 ws)"
  by (simp add: new_records_def)

lemma listed_after_upload:
  assumes "uuid \<noteq> []" and "filename \<noteq> []" and "uuid \<notin> set (map md_doc_id all_docs)"
    and "chunks \<noteq> []"
  shows "(uuid, filename) \<in> set (unique_docs (all_docs @ new_records filename uuid chunks) [])"
proof -
  obtain w ws where c: "chunks = w # ws" using assms(4) by (cases chunks) auto
  let ?acc = "unique_docs all_docs []"
  let ?x = "make_chunk filename uuid (0, w)"
  have fresh: "md_doc_id ?x \<notin> set (map fst ?acc)"
    using unique_docs_ids [of all_docs "[]"] assms(3) by (auto simp: make_chunk_def)
  have "(md_doc_id ?x, md_filename ?x) \<in>
          set (unique_docs (?x # map (make_chunk filename uuid) (enumerate 1 ws)) ?acc)"
    using assms(1,2) fresh by (intro unique_docs_first) (simp_all add: make_chunk_def)
  then show ?thesis
    by (simp add: unique_docs_append c new_records_Cons make_chunk_def)
qed

lemma found_after_upload:
  assumes "uuid \<notin> set (map md_doc_id all_docs)" and "chunks \<noteq> []"
  shows "find_filename (all_docs @ new_records filename uuid chunks) uuid = Some filename"
proof -
  obtain w ws where c: "chunks = w # ws" using assms(2) by (cases chunks) auto
  have "find_filename all_docs uuid = None"
    using assms(1) by (simp add: find_filename_None)
  then show ?thesis
    by (simp add: find_filename_append c new_records_Cons make_chunk_def)
qed


text \<open>
  C10. After an upload answered 200, the name saved in the upload folder, the filename
  of every new chunk (there is at least one) and the filename in the response are the
  sanitised name. Any upload whose raw filename sanitises to the same string is then
  answered 400 without a change of state, with the duplicate message once that raw
  name passes the checks that come first. With a fresh, non-empty \<open>doc_id\<close> and a
  non-empty sanitised name, the listing and the delete response give the sanitised
  name as well.
\<close>

theorem upload_sanitized_filename:
  assumes "upload_document secure_filename uuid st (Some file) = Some ((b, 200), st')"
  shows "\<exists>all_docs new.
      collection st = Some all_docs
      \<and> st' = st\<lparr>uploads := insert (secure_filename (raw_filename file)) (uploads st),
                 collection := Some (all_docs @ new)\<rparr>
      \<and> new \<noteq> []
      \<and> map md_filename new = replicate (length new) (secure_filename (raw_filename file))
      \<and> (\<exists>len. b = UploadBody ''Document uploaded and processed successfully''
                     (secure_filename (raw_filename file)) uuid (length new) len)
      \<and> (secure_filename (raw_filename other) = secure_filename (raw_filename file) \<longrightarrow>
           (\<exists>e. upload_document secure_filename uuid' st' (Some other) =
                  Some ((ErrorBody e, 400), st')
                \<and> (raw_filename other \<noteq> [] \<and> allowed_file (raw_filename other) \<longrightarrow>
                     e = duplicate_message)))
      \<and> (uuid \<noteq> [] \<and> secure_filename (raw_filename file) \<noteq> []
           \<and> uuid \<notin> set (map md_doc_id all_docs) \<longrightarrow>
           (\<exists>docs. list_documents st' = (DocumentsBody docs, 200)
                  \<and> (uuid, secure_filename (raw_filename file)) \<in> set docs)
           \<and> (\<exists>n. fst (delete_document st' uuid) =
                      (DeleteBody ''Document deleted successfully''
                         (secure_filename (raw_filename file)) n, 200)))"
proof -
  let ?fn = "secure_filename (raw_filename file)"
  obtain docs0 body_text where ok:
      "raw_filename file \<noteq> []" "allowed_file (raw_filename file)"
      "collection st = Some docs0"
      "?fn \<notin> set (map md_filename docs0)"
      "extract_text_from_pdf (content file) = Inr body_text" "py_strip body_text \<noteq> []"
    using upload_document_200 [of secure_filename uuid st "Some file" b st'] assms by auto
  let ?new = "new_records ?fn uuid (windows body_text)"
  have res: "b = UploadBody ''Document uploaded and processed successfully'' ?fn uuid
                   (window_count (length body_text)) (length body_text)"
    and st': "st' = st\<lparr>uploads := insert ?fn (uploads st), collection := Some (docs0 @ ?new)\<rparr>"
    using assms upload_document_accepted [of "file" st docs0 secure_filename body_text uuid, OF ok]
    by simp_all
  have "body_text \<noteq> []" using ok(6) py_strip_Nil by auto
  then have wne: "windows body_text \<noteq> []" by (rule windows_nonempty)
  have len_w: "length ?new = length (windows body_text)" by (simp add: new_records_def)
  then have new_ne: "?new \<noteq> []" using wne by auto
  have len_new: "length ?new = window_count (length body_text)"
    by (simp add: new_records_def windows_def)
  have names: "map md_filename ?new = replicate (length ?new) ?fn"
    by (simp only: md_filename_new_records len_w)
  have body: "\<exists>len. b = UploadBody ''Document uploaded and processed successfully''
                     ?fn uuid (length ?new) len"
    using res len_new by simp
  have coll': "collection st' = Some (docs0 @ ?new)" by (simp add: st')
  have dup: "\<exists>e. upload_document secure_filename uuid' st' (Some other) =
                  Some ((ErrorBody e, 400), st')
                \<and> (raw_filename other \<noteq> [] \<and> allowed_file (raw_filename other) \<longrightarrow>
                     e = duplicate_message)"
    if same: "secure_filename (raw_filename other) = ?fn"
  proof -
    have "?fn \<in> set (map md_filename ?new)"
      using wne by (rule filename_in_new_records)
    then have "secure_filename (raw_filename other) \<in> set (map md_filename (docs0 @ ?new))"
      using same by simp
    then show ?thesis
      using upload_document_duplicate [of st' "docs0 @ ?new" secure_filename other uuid', OF coll']
      by simp
  qed
  have echo: "(\<exists>docs. list_documents st' = (DocumentsBody docs, 200) \<and> (uuid, ?fn) \<in> set docs)
           \<and> (\<exists>n. fst (delete_document st' uuid) =
                      (DeleteBody ''Document deleted successfully'' ?fn n, 200))"
    if h: "uuid \<noteq> [] \<and> ?fn \<noteq> [] \<and> uuid \<notin> set (map md_doc_id docs0)"
  proof
    have "(uuid, ?fn) \<in> set (unique_docs (docs0 @ ?new) [])"
      using h wne by (intro listed_after_upload) simp_all
    then show "\<exists>docs. list_documents st' = (DocumentsBody docs, 200) \<and> (uuid, ?fn) \<in> set docs"
      by (simp add: list_documents_def coll')
  next
    have "find_filename (docs0 @ ?new) uuid = Some ?fn"
      using h wne by (intro found_after_upload) simp_all
    then show "\<exists>n. fst (delete_document st' uuid) =
                      (DeleteBody ''Document deleted successfully'' ?fn n, 200)"
      using h by (simp add: delete_document_def coll' Let_def)
  qed
  show ?thesis
    using ok(3) st' new_ne names body dup echo by blast
qed


lemma upload_my_file:
  "upload_document (map (\<lambda>c. if c = CHR '' '' then CHR ''_'' else c)) ''d1''
     \<lparr>collection = Some [], uploads = {}\<rparr>
     (Some \<lparr>raw_filename = ''my file.pdf'',
            content = \<lparr>text_layer = Inr [''Hello world''],
                       ocr_layer = Inl (Error ''OCR libraries not available'')\<rparr>\<rparr>) =
   Some ((UploadBody ''Document uploaded and processed successfully'' ''my_file.pdf'' ''d1'' 1 12,
          200),
         \<lparr>collection =
            Some [\<lparr>chunk_id = ''d1_chunk_0'', document = ''Hello world\<newline>'',
                   md_filename = ''my_file.pdf'', md_doc_id = ''d1'', md_chunk_index = 0\<rparr>],
          uploads = {''my_file.pdf''}\<rparr>)"
proof -
  let ?sf = "map (\<lambda>c. if c = CHR '' '' then CHR ''_'' else c)"
  let ?file = "\<lparr>raw_filename = ''my file.pdf'',
            content = \<lparr>text_layer = Inr [''Hello world''],
                       ocr_layer = Inl (Error ''OCR libraries not available'')\<rparr>\<rparr>"
  let ?st = "\<lparr>collection = Some [], uploads = {}\<rparr>"
  have a: "allowed_file ''my file.pdf''"
    by (simp add: allowed_file_def rsplit_last_def py_lower_def lower_char_def)
  have e: "extract_text_from_pdf (content ?file) = Inr ''Hello world\<newline>''"
    by (simp add: extract_text_from_pdf_def primary_text_def py_strip_def is_space_def)
  have s: "py_strip ''Hello world\<newline>'' \<noteq> []"
    by (simp add: py_strip_def is_space_def)
  have w: "windows ''Hello world\<newline>'' = [''Hello world\<newline>'']"
    by (simp add: windows_def window_count_def window_def)
  have n: "str_nat 0 = ''0''" by (simp add: str_nat.simps)
  show ?thesis
    using upload_document_accepted [of ?file ?st "[]" ?sf "''Hello world\<newline>''" "''d1''"] e s a
    by (simp add: w n new_records_def make_chunk_def window_count_def)
qed

theorem upload_sanitized_filename_witness:
  "upload_document (map (\<lambda>c. if c = CHR '' '' then CHR ''_'' else c)) ''d1''
     \<lparr>collection = Some [], uploads = {}\<rparr>
     (Some \<lparr>raw_filename = ''my file.pdf'',
            content = \<lparr>text_layer = Inr [''Hello world''],
                       ocr_layer = Inl (Error ''OCR libraries not available'')\<rparr>\<rparr>) =
   Some ((UploadBody ''Document uploaded and processed successfully'' ''my_file.pdf'' ''d1'' 1 12,
          200),
         \<lparr>collection =
            Some [\<lparr>chunk_id = ''d1_chunk_0'', document = ''Hello world\<newline>'',
                   md_filename = ''my_file.pdf'', md_doc_id = ''d1'', md_chunk_index = 0\<rparr>],
          uploads = {''my_file.pdf''}\<rparr>)
   \<and> upload_document (map (\<lambda>c. if c = CHR '' '' then CHR ''_'' else c)) ''d2''
         \<lparr>collection =
            Some [\<lparr>chunk_id = ''d1_chunk_0'', document = ''Hello world\<newline>'',
                   md_filename = ''my_file.pdf'', md_doc_id = ''d1'', md_chunk_index = 0\<rparr>],
          uploads = {''my_file.pdf''}\<rparr>
         (Some \<lparr>raw_filename = ''my_file.pdf'',
                content = \<lparr>text_layer = Inr [''Another text''], ocr_layer = Inr []\<rparr>\<rparr>) =
       Some ((ErrorBody duplicate_message, 400),
         \<lparr>collection =
            Some [\<lparr>chunk_id = ''d1_chunk_0'', document = ''Hello world\<newline>'',
                   md_filename = ''my_file.pdf'', md_doc_id = ''d1'', md_chunk_index = 0\<rparr>],
          uploads = {''my_file.pdf''}\<rparr>)
   \<and> list_documents
         \<lparr>collection =
            Some [\<lparr>chunk_id = ''d1_chunk_0'', document = ''Hello world\<newline>'',
                   md_filename = ''my_file.pdf'', md_doc_id = ''d1'', md_chunk_index = 0\<rparr>],
          uploads = {''my_file.pdf''}\<rparr> =
       (DocumentsBody [(''d1'', ''my_file.pdf'')], 200)
   \<and> fst (delete_document
         \<lparr>collection =
            Some [\<lparr>chunk_id = ''d1_chunk_0'', document = ''Hello world\<newline>'',
                   md_filename = ''my_file.pdf'', md_doc_id = ''d1'', md_chunk_index = 0\<rparr>],
          uploads = {''my_file.pdf''}\<rparr> ''d1'') =
       (DeleteBody ''Document deleted successfully'' ''my_file.pdf'' 1, 200)"
proof -
  let ?sf = "map (\<lambda>c. if c = CHR '' '' then CHR ''_'' else c)"
  let ?c = "\<lparr>chunk_id = ''d1_chunk_0'', document = ''Hello world\<newline>'',
             md_filename = ''my_file.pdf'', md_doc_id = ''d1'', md_chunk_index = 0\<rparr>"
  let ?st0 = "\<lparr>collection = Some [], uploads = {}\<rparr>"
  let ?st1 = "\<lparr>collection = Some [?c], uploads = {''my_file.pdf''}\<rparr>"
  let ?first = "\<lparr>raw_filename = ''my file.pdf'',
            content = \<lparr>text_layer = Inr [''Hello world''],
                       ocr_layer = Inl (Error ''OCR libraries not available'')\<rparr>\<rparr>"
  let ?other = "\<lparr>raw_filename = ''my_file.pdf'',
                content = \<lparr>text_layer = Inr [''Another text''], ocr_layer = Inr []\<rparr>\<rparr>"
  from upload_sanitized_filename [OF upload_my_file, of ?other "''d2''"]
  obtain all_docs new where
      coll: "collection ?st0 = Some all_docs"
    and dup: "?sf (raw_filename ?other) = ?sf (raw_filename ?first) \<longrightarrow>
           (\<exists>e. upload_document ?sf ''d2'' ?st1 (Some ?other) = Some ((ErrorBody e, 400), ?st1)
                \<and> (raw_filename ?other \<noteq> [] \<and> allowed_file (raw_filename ?other) \<longrightarrow>
                     e = duplicate_message))"
    and echo: "''d1'' \<noteq> [] \<and> ?sf (raw_filename ?first) \<noteq> []
           \<and> ''d1'' \<notin> set (map md_doc_id all_docs) \<longrightarrow>
           (\<exists>docs. list_documents ?st1 = (DocumentsBody docs, 200)
                  \<and> (''d1'', ?sf (raw_filename ?first)) \<in> set docs)
           \<and> (\<exists>n. fst (delete_document ?st1 ''d1'') =
                      (DeleteBody ''Document deleted successfully''
                         (?sf (raw_filename ?first)) n, 200))"
    by blast
  have a: "allowed_file ''my_file.pdf''"
    by (simp add: allowed_file_def rsplit_last_def py_lower_def lower_char_def)
  have second: "upload_document ?sf ''d2'' ?st1 (Some ?other) =
                  Some ((ErrorBody duplicate_message, 400), ?st1)"
    using dup a by auto
  have "all_docs = []" using coll by simp
  then have "(\<exists>docs. list_documents ?st1 = (DocumentsBody docs, 200)
                  \<and> (''d1'', ''my_file.pdf'') \<in> set docs)
           \<and> (\<exists>n. fst (delete_document ?st1 ''d1'') =
                      (DeleteBody ''Document deleted successfully'' ''my_file.pdf'' n, 200))"
    using echo by simp
  then have lst: "list_documents ?st1 = (DocumentsBody [(''d1'', ''my_file.pdf'')], 200)"
    and del: "fst (delete_document ?st1 ''d1'') =
                (DeleteBody ''Document deleted successfully'' ''my_file.pdf'' 1, 200)"
    by (auto simp: list_documents_def delete_document_def Let_def)
  show ?thesis using upload_my_file second lst del by simp
qed

end
